theory Spec2Isabelle
  imports Complex_Main
begin

section \<open>The daily postback settlement: data\<close>

text \<open>
  The repository settles the cached conversions once a day: it reads their total, sends
  one GET request to the tracking endpoint and, when the endpoint answers with a success
  status, deletes the cached rows. The same engine is written out four times:
  \<^item> \<^verbatim>\<open>lib/scheduler.js\<close>: \<open>checkAndRunDailyPostback\<close> (the timer path) and its
    \<open>executeDailyPostback\<close>;
  \<^item> \<^verbatim>\<open>pages/api/cron/daily-postback.js\<close>: \<open>executeDailyPostback\<close> with
    \<open>checkIfAlreadyRanToday\<close>;
  \<^item> \<^verbatim>\<open>pages/api/admin/manual-daily-postback.js\<close>: \<open>executeDailyPostback\<close>;
  \<^item> \<^verbatim>\<open>pages/api/admin/force-daily-check.js\<close>: \<open>executeForcedDailyPostback\<close>.

  An asynchronous JavaScript function that may throw is a function from the state of the
  world to an outcome (a returned value or a thrown error message) and the new state.
  Amounts are JavaScript numbers in the source; they are exact rationals here, and the
  only operations on them are the sum of the cached amounts and the test \<open>\<le> 0\<close>.
\<close>

datatype 'a outcome = Returned 'a | Thrown string

text \<open>A row of the table \<open>cached_conversions\<close>.\<close>

record cached_conversion =
  clickid :: string
  amount :: rat
  created_at :: nat

text \<open>
  The object given to \<open>logConversion\<close>. Its \<open>message\<close> property is free text built with
  \<open>toFixed\<close> and date formatting; no code of the repository reads it back, and it is left
  out.
\<close>

record log_data =
  log_clickid :: string
  action :: string
  cached_amount :: "rat option"
  total_sent :: "rat option"

text \<open>
  The request URL
  \<^verbatim>\<open>https://clks.trackthisclicks.com/postback?clickid=<c>&sum=<s>\<close>, kept as its two
  query parameters before \<open>encodeURIComponent\<close>.
\<close>

datatype url = PostbackUrl string rat

text \<open>The six arguments of \<open>logPostback\<close>, which are a row of the postback history.\<close>

record postback =
  pb_clickid :: string
  pb_amount :: rat
  pb_url :: url
  pb_success :: bool
  pb_response :: string
  pb_error :: "string option"

text \<open>
  What \<open>fetch\<close> resolves to: the status and what \<open>response.text()\<close> does. \<open>response.ok\<close>
  is true for the statuses 200 to 299.
\<close>

record response =
  status :: nat
  text_body :: "string outcome"

definition ok :: "response \<Rightarrow> bool" where
  "ok r = (200 \<le> status r \<and> status r \<le> 299)"

datatype fetch_outcome = Rejected string | Responded response

text \<open>
  Every call that leaves the engine (a helper of \<^verbatim>\<open>lib/database.js\<close>, a query on the
  pool, the HTTP request) is written to a trace, in the order of the calls, so that
  "was never called" and "was called once" are properties of a run.
\<close>

datatype call =
    GetGlobalCachedTotal
  | SelectLatestClickid
  | CountCronSuccessToday
  | LogConversion log_data
  | Fetch url
  | LogPostback postback
  | ClearAllCachedConversions

text \<open>
  The state: the three tables, the module variable \<open>lastDailyRun\<close> of
  \<^verbatim>\<open>lib/scheduler.js\<close> (\<open>null\<close> is \<open>None\<close>) and the trace. A row of \<open>conversion_logs\<close>
  is the logged object with the date the database gave it.
\<close>

record world =
  cached_conversions :: "cached_conversion list"
  conversion_logs :: "(string \<times> log_data) list"
  postback_history :: "postback list"
  lastDailyRun :: "string option"
  calls :: "call list"

text \<open>
  What one invocation meets: the clock (\<open>nyTime.toDateString()\<close>, \<open>getHours()\<close>,
  \<open>getMinutes()\<close>, \<open>toLocaleString()\<close> and the database's \<open>CURDATE()\<close>), the answer of the
  endpoint, and which statements of the store fail during the invocation (\<open>Some msg\<close>:
  the statement throws an error with that message).
\<close>

record env =
  currentDateString :: string
  hour :: nat
  minute :: nat
  nyLocale :: string
  curdate :: string
  fetch_result :: fetch_outcome
  total_error :: "string option"
  select_error :: "string option"
  count_error :: "string option"
  clear_error :: "string option"
  log_insert_fails :: bool
  history_insert_fails :: bool

type_synonym 'a io = "world \<Rightarrow> 'a outcome \<times> world"

subsection \<open>Sequencing and \<open>try\<close>/\<open>catch\<close>\<close>

definition ret :: "'a \<Rightarrow> 'a io" where
  "ret x w = (Returned x, w)"

text \<open>\<open>const x = await m; k x\<close>: an error thrown by \<open>m\<close> ends the sequence.\<close>

definition await :: "'a io \<Rightarrow> ('a \<Rightarrow> 'b io) \<Rightarrow> 'b io" where
  "await m k w = (case m w of (Returned x, w') \<Rightarrow> k x w' | (Thrown msg, w') \<Rightarrow> (Thrown msg, w'))"

text \<open>
  \<open>try { m } catch (error) { h error.message }\<close>. An error thrown inside the handler
  leaves the statement.
\<close>

definition try_catch :: "'a io \<Rightarrow> (string \<Rightarrow> 'a io) \<Rightarrow> 'a io" where
  "try_catch m h w = (case m w of (Returned x, w') \<Rightarrow> (Returned x, w') | (Thrown msg, w') \<Rightarrow> h msg w')"

text \<open>
  One statement \<open>const x = await m\<close> of a \<open>try\<close> block whose \<open>catch\<close> block is \<open>h\<close>,
  followed by the rest \<open>k\<close> of the block. Only an error of \<open>m\<close> enters \<open>h\<close> here; the rest
  names its handler itself, so that the handler can read the locals assigned so far.
\<close>

definition await_or :: "'a io \<Rightarrow> (string \<Rightarrow> 'b io) \<Rightarrow> ('a \<Rightarrow> 'b io) \<Rightarrow> 'b io" where
  "await_or m h k w = (case m w of (Returned x, w') \<Rightarrow> k x w' | (Thrown msg, w') \<Rightarrow> h msg w')"

definition record_call :: "call \<Rightarrow> world \<Rightarrow> world" where
  "record_call c w = w\<lparr>calls := calls w @ [c]\<rparr>"

text \<open>The calls made between two states of one run.\<close>

definition issued :: "world \<Rightarrow> world \<Rightarrow> call list" where
  "issued w w' = drop (length (calls w)) (calls w')"

subsection \<open>The store and the endpoint\<close>

text \<open>
  Modelled from the spec: \<open>getGlobalCachedTotal\<close> of \<^verbatim>\<open>lib/database.js\<close>, which is not
  among the sources. Section 4.3: "sum of all pending amounts; returns 0 (not an error)
  when no pending records exist"; section 7: "store-read/clear failures propagate to the
  top-level catch".
\<close>

definition getGlobalCachedTotal :: "env \<Rightarrow> rat io" where
  "getGlobalCachedTotal e w =
     (case total_error e of
        Some msg \<Rightarrow> (Thrown msg, record_call GetGlobalCachedTotal w)
      | None \<Rightarrow> (Returned (sum_list (map amount (cached_conversions w))),
                 record_call GetGlobalCachedTotal w))"

text \<open>
  Modelled from the spec: \<open>logConversion\<close> of \<^verbatim>\<open>lib/database.js\<close>. Section 3: an
  AuditEntry is appended; section 7: "logging failures are swallowed (diagnostics only)
  so they never mask the primary settlement outcome". A failed insert leaves the table
  as it was and the call returns.
\<close>

definition logConversion :: "env \<Rightarrow> log_data \<Rightarrow> unit io" where
  "logConversion e d w =
     (Returned (),
      (record_call (LogConversion d) w)
        \<lparr>conversion_logs :=
           conversion_logs w @ (if log_insert_fails e then [] else [(curdate e, d)])\<rparr>)"

text \<open>
  Modelled from the spec: \<open>logPostback\<close> of \<^verbatim>\<open>lib/database.js\<close>. Section 4.3,
  \<open>recordAttempt\<close>: "appends a SettlementAttempt; must never throw in a way that aborts
  the caller's audit trail -- logging failures here are swallowed and reported only
  via side-channel diagnostics".
\<close>

definition logPostback :: "env \<Rightarrow> postback \<Rightarrow> unit io" where
  "logPostback e p w =
     (Returned (),
      (record_call (LogPostback p) w)
        \<lparr>postback_history :=
           postback_history w @ (if history_insert_fails e then [] else [p])\<rparr>)"

text \<open>
  Modelled from the spec: \<open>clearAllCachedConversions\<close> of \<^verbatim>\<open>lib/database.js\<close>.
  Section 4.3, \<open>clearAllPending\<close>: "deletes every PendingRecord and returns the count
  deleted"; section 7: a clear failure propagates to the caller.
\<close>

definition clearAllCachedConversions :: "env \<Rightarrow> nat io" where
  "clearAllCachedConversions e w =
     (case clear_error e of
        Some msg \<Rightarrow> (Thrown msg, record_call ClearAllCachedConversions w)
      | None \<Rightarrow> (Returned (length (cached_conversions w)),
                 (record_call ClearAllCachedConversions w)\<lparr>cached_conversions := []\<rparr>))"

text \<open>
  \<^verbatim>\<open>SELECT clickid FROM cached_conversions ORDER BY created_at DESC LIMIT 1\<close>: the row
  created last, if there is one. SQL leaves the choice among rows of equal \<open>created_at\<close>
  open; the earliest of them in the table is taken.
\<close>

fun latest :: "cached_conversion list \<Rightarrow> cached_conversion option" where
  "latest [] = None"
| "latest (r # rs) =
     (case latest rs of
        None \<Rightarrow> Some r
      | Some r' \<Rightarrow> if created_at r < created_at r' then Some r' else Some r)"

definition select_latest_clickid :: "env \<Rightarrow> string list io" where
  "select_latest_clickid e w =
     (case select_error e of
        Some msg \<Rightarrow> (Thrown msg, record_call SelectLatestClickid w)
      | None \<Rightarrow> (Returned (case latest (cached_conversions w) of
                             None \<Rightarrow> []
                           | Some r \<Rightarrow> [clickid r]),
                 record_call SelectLatestClickid w))"

text \<open>
  \<^verbatim>\<open>clickidResult[0]?.clickid || sentinel\<close>: the sentinel when there is no row, and
  also when the row's clickid is the empty string, which \<open>||\<close> takes for false.
\<close>

definition clickid_or :: "string list \<Rightarrow> string \<Rightarrow> string" where
  "clickid_or clickidResult sentinel =
     (case clickidResult of
        [] \<Rightarrow> sentinel
      | c # _ \<Rightarrow> if c = [] then sentinel else c)"

text \<open>
  \<^verbatim>\<open>SELECT COUNT(*) as count FROM conversion_logs
  WHERE action IN ('cron_postback_success', 'cron_cache_cleared')
  AND DATE(created_at) = CURDATE()\<close>
\<close>

definition cron_success_today :: "env \<Rightarrow> string \<times> log_data \<Rightarrow> bool" where
  "cron_success_today e row =
     ((action (snd row) = ''cron_postback_success'' \<or> action (snd row) = ''cron_cache_cleared'')
      \<and> fst row = curdate e)"

definition count_cron_success_today :: "env \<Rightarrow> nat io" where
  "count_cron_success_today e w =
     (case count_error e of
        Some msg \<Rightarrow> (Thrown msg, record_call CountCronSuccessToday w)
      | None \<Rightarrow> (Returned (length (filter (cron_success_today e) (conversion_logs w))),
                 record_call CountCronSuccessToday w))"

text \<open>
  \<open>fetch(redtrackUrl, {method: 'GET', timeout: 30000})\<close>: one request; a transport error
  or a timeout rejects with a message.
\<close>

definition fetch :: "env \<Rightarrow> url \<Rightarrow> response io" where
  "fetch e u w =
     (case fetch_result e of
        Rejected msg \<Rightarrow> (Thrown msg, record_call (Fetch u) w)
      | Responded r \<Rightarrow> (Returned r, record_call (Fetch u) w))"

definition response_text :: "response \<Rightarrow> string io" where
  "response_text r w = (text_body r, w)"

subsection \<open>Numbers in messages\<close>

fun show_nat :: "nat \<Rightarrow> string" where
  "show_nat n =
     (if n < 10 then [''0123456789'' ! n]
      else show_nat (n div 10) @ [''0123456789'' ! (n mod 10)])"

declare show_nat.simps [simp del]

text \<open>\<open>s.padStart(2, '0')\<close>\<close>

definition padStart2 :: "string \<Rightarrow> string" where
  "padStart2 s = replicate (2 - length s) (CHR ''0'') @ s"

section \<open>The result objects\<close>

text \<open>
  The engines return object literals with different sets of properties; a property that
  a literal does not have is \<open>None\<close>.
\<close>

record result =
  success :: "bool option"
  message :: "string option"
  totalAmount :: "rat option"
  clearedEntries :: "nat option"
  clickidUsed :: "string option"
  error :: "string option"
  skipped :: "bool option"
  reason :: "string option"
  nyTime :: "string option"

definition no_fields :: result where
  "no_fields =
     \<lparr>success = None, message = None, totalAmount = None, clearedEntries = None,
      clickidUsed = None, error = None, skipped = None, reason = None, nyTime = None\<rparr>"

section \<open>The logging helpers as parameters\<close>





section \<open>Sending the postback\<close>

text \<open>
  The inner \<open>try\<close>/\<open>catch\<close> of the four engines, which differ there only in the two
  action tags. It assigns the locals \<open>postbackSuccess\<close>, \<open>responseText\<close> and
  \<open>errorMessage\<close>, returned here as a triple. The \<open>catch\<close> block (\<open>send_failed_with\<close>)
  sees \<open>responseText\<close> as it was when the error was thrown: empty until
  \<open>response.text()\<close> has returned. \<open>throw new Error(...)\<close> inside the \<open>try\<close> enters the
  \<open>catch\<close> block at once.
\<close>

definition send_failed_with ::
  "(log_data \<Rightarrow> unit io) \<Rightarrow> string \<Rightarrow> string \<Rightarrow> rat \<Rightarrow> string \<Rightarrow> string
     \<Rightarrow> (bool \<times> string \<times> string option) io" where
  "send_failed_with log_conversion failed_action primaryClickid totalCached responseText msg =
     await (log_conversion
              \<lparr>log_clickid = primaryClickid, action = failed_action,
               cached_amount = Some totalCached, total_sent = Some totalCached\<rparr>) (\<lambda>_.
     ret (False, responseText, Some msg))"

definition send_postback_with ::
  "(log_data \<Rightarrow> unit io) \<Rightarrow> env \<Rightarrow> string \<Rightarrow> string \<Rightarrow> string \<Rightarrow> rat \<Rightarrow> url
     \<Rightarrow> (bool \<times> string \<times> string option) io" where
  "send_postback_with log_conversion e success_action failed_action primaryClickid totalCached
       redtrackUrl =
     (let caught = send_failed_with log_conversion failed_action primaryClickid totalCached in
      await_or (fetch e redtrackUrl) (caught []) (\<lambda>response.
      if \<not> ok response then caught [] (''HTTP error! status: '' @ show_nat (status response))
      else
        await_or (response_text response) (caught []) (\<lambda>responseText.
        await_or (log_conversion
                    \<lparr>log_clickid = primaryClickid, action = success_action,
                     cached_amount = Some totalCached, total_sent = Some totalCached\<rparr>)
          (caught responseText) (\<lambda>_.
        ret (True, responseText, None)))))"

definition send_postback ::
  "env \<Rightarrow> string \<Rightarrow> string \<Rightarrow> string \<Rightarrow> rat \<Rightarrow> url \<Rightarrow> (bool \<times> string \<times> string option) io" where
  "send_postback e success_action failed_action primaryClickid totalCached redtrackUrl =
     send_postback_with (logConversion e) e success_action failed_action primaryClickid
       totalCached redtrackUrl"

section \<open>\<open>executeDailyPostback\<close> of \<^verbatim>\<open>lib/scheduler.js\<close> (timer path)\<close>

definition executeDailyPostback_with ::
  "(log_data \<Rightarrow> unit io) \<Rightarrow> (postback \<Rightarrow> unit io) \<Rightarrow> env \<Rightarrow> result io" where
  "executeDailyPostback_with log_conversion log_postback e =
     try_catch
       (await (getGlobalCachedTotal e) (\<lambda>totalCached.
        if totalCached \<le> 0 then
          await (log_conversion
                   \<lparr>log_clickid = ''auto-scheduler'', action = ''no_cache_to_process'',
                    cached_amount = None, total_sent = None\<rparr>) (\<lambda>_.
          ret (no_fields
                 \<lparr>success := Some True,
                  message := Some ''No cached conversions to process'',
                  totalAmount := Some totalCached\<rparr>))
        else
          await (select_latest_clickid e) (\<lambda>clickidResult.
          let primaryClickid = clickid_or clickidResult ''auto-scheduler'' in
          await (log_conversion
                   \<lparr>log_clickid = primaryClickid, action = ''daily_postback_preparing'',
                    cached_amount = Some totalCached, total_sent = Some totalCached\<rparr>) (\<lambda>_.
          let redtrackUrl = PostbackUrl primaryClickid totalCached in
          await (send_postback_with log_conversion e ''daily_postback_success'' ''daily_postback_failed''
                   primaryClickid totalCached redtrackUrl)
            (\<lambda>(postbackSuccess, responseText, errorMessage).
          await (log_postback
                   \<lparr>pb_clickid = primaryClickid, pb_amount = totalCached, pb_url = redtrackUrl,
                    pb_success = postbackSuccess, pb_response = responseText,
                    pb_error = errorMessage\<rparr>) (\<lambda>_.
          if postbackSuccess then
            await (clearAllCachedConversions e) (\<lambda>clearedRows.
            await (log_conversion
                     \<lparr>log_clickid = primaryClickid, action = ''daily_cache_cleared'',
                      cached_amount = None, total_sent = None\<rparr>) (\<lambda>_.
            ret (no_fields
                   \<lparr>success := Some True,
                    message := Some ''Daily postback sent successfully and cache cleared'',
                    totalAmount := Some totalCached,
                    clearedEntries := Some clearedRows,
                    clickidUsed := Some primaryClickid\<rparr>)))
          else
            await (log_conversion
                     \<lparr>log_clickid = primaryClickid, action = ''daily_postback_failed_final'',
                      cached_amount = None, total_sent = None\<rparr>) (\<lambda>_.
            ret (no_fields
                   \<lparr>success := Some False,
                    message := Some ''Daily postback failed - cache not cleared'',
                    totalAmount := Some totalCached,
                    error := errorMessage,
                    clickidUsed := Some primaryClickid\<rparr>))))))))
       (\<lambda>msg.
          await (log_conversion
                   \<lparr>log_clickid = ''auto-scheduler'', action = ''daily_execution_error'',
                    cached_amount = None, total_sent = None\<rparr>) (\<lambda>_.
          ret (no_fields
                 \<lparr>success := Some False,
                  error := Some msg,
                  message := Some ''Daily postback execution error''\<rparr>)))"

definition executeDailyPostback :: "env \<Rightarrow> result io" where
  "executeDailyPostback e = executeDailyPostback_with (logConversion e) (logPostback e) e"

section \<open>\<open>checkAndRunDailyPostback\<close> (timer path)\<close>

text \<open>
  The assignment to \<open>lastDailyRun\<close> stands before the first \<open>await\<close>: it is kept
  whatever the rest of the invocation does.
\<close>

definition set_lastDailyRun :: "string \<Rightarrow> unit io" where
  "set_lastDailyRun d w = (Returned (), w\<lparr>lastDailyRun := Some d\<rparr>)"

definition checkAndRunDailyPostback :: "env \<Rightarrow> result io" where
  "checkAndRunDailyPostback e =
     try_catch
       (\<lambda>w.
          if lastDailyRun w = Some (currentDateString e) then
            ret (no_fields\<lparr>skipped := Some True, reason := Some ''Already ran today''\<rparr>) w
          else
            let isTimeWindow = (hour e = 23 \<and> minute e = 59) in
            if \<not> isTimeWindow then
              ret (no_fields
                     \<lparr>skipped := Some True,
                      reason := Some (''Not in time window. Current NY time: '' @ show_nat (hour e)
                                      @ '':'' @ padStart2 (show_nat (minute e)))\<rparr>) w
            else
              await (set_lastDailyRun (currentDateString e)) (\<lambda>_.
              await (logConversion e
                       \<lparr>log_clickid = ''auto-scheduler'', action = ''daily_auto_trigger'',
                        cached_amount = None, total_sent = None\<rparr>) (\<lambda>_.
              executeDailyPostback e)) w)
       (\<lambda>msg.
          await (logConversion e
                   \<lparr>log_clickid = ''auto-scheduler'', action = ''daily_scheduler_error'',
                    cached_amount = None, total_sent = None\<rparr>) (\<lambda>_.
          ret (no_fields\<lparr>success := Some False, error := Some msg\<rparr>)))"


section \<open>\<open>checkIfAlreadyRanToday\<close> (cron path)\<close>

text \<open>
  \<open>getPool()\<close> stands before the \<open>try\<close> in the source; it hands out the pool and is
  taken not to throw. The query is inside the \<open>try\<close>.
\<close>

definition checkIfAlreadyRanToday :: "env \<Rightarrow> bool io" where
  "checkIfAlreadyRanToday e =
     try_catch
       (await (count_cron_success_today e) (\<lambda>count. ret (count > 0)))
       (\<lambda>error. ret False)"

section \<open>\<open>executeDailyPostback\<close> of \<^verbatim>\<open>pages/api/cron/daily-postback.js\<close>\<close>

text \<open>Named \<open>executeDailyPostback\<close> in its file; it starts with the persisted check.\<close>

definition cron_executeDailyPostback_with ::
  "(log_data \<Rightarrow> unit io) \<Rightarrow> (postback \<Rightarrow> unit io) \<Rightarrow> env \<Rightarrow> result io" where
  "cron_executeDailyPostback_with log_conversion log_postback e =
     try_catch
       (await (checkIfAlreadyRanToday e) (\<lambda>hasRunToday.
        if hasRunToday then
          await (log_conversion
                   \<lparr>log_clickid = ''vercel-cron'', action = ''cron_duplicate_prevented'',
                    cached_amount = None, total_sent = None\<rparr>) (\<lambda>_.
          ret (no_fields
                 \<lparr>success := Some True,
                  message := Some ''Already processed today - duplicate prevented'',
                  skipped := Some True\<rparr>))
        else
        await (getGlobalCachedTotal e) (\<lambda>totalCached.
        if totalCached \<le> 0 then
          await (log_conversion
                   \<lparr>log_clickid = ''vercel-cron'', action = ''cron_no_cache'',
                    cached_amount = None, total_sent = None\<rparr>) (\<lambda>_.
          ret (no_fields
                 \<lparr>success := Some True,
                  message := Some ''No cached conversions to process'',
                  totalAmount := Some totalCached\<rparr>))
        else
          await (select_latest_clickid e) (\<lambda>clickidResult.
          let primaryClickid = clickid_or clickidResult ''vercel-cron'' in
          await (log_conversion
                   \<lparr>log_clickid = primaryClickid, action = ''cron_postback_preparing'',
                    cached_amount = Some totalCached, total_sent = Some totalCached\<rparr>) (\<lambda>_.
          let redtrackUrl = PostbackUrl primaryClickid totalCached in
          await (send_postback_with log_conversion e ''cron_postback_success'' ''cron_postback_failed''
                   primaryClickid totalCached redtrackUrl)
            (\<lambda>(postbackSuccess, responseText, errorMessage).
          await (log_postback
                   \<lparr>pb_clickid = primaryClickid, pb_amount = totalCached, pb_url = redtrackUrl,
                    pb_success = postbackSuccess, pb_response = responseText,
                    pb_error = errorMessage\<rparr>) (\<lambda>_.
          if postbackSuccess then
            await (clearAllCachedConversions e) (\<lambda>clearedRows.
            await (log_conversion
                     \<lparr>log_clickid = primaryClickid, action = ''cron_cache_cleared'',
                      cached_amount = None, total_sent = None\<rparr>) (\<lambda>_.
            ret (no_fields
                   \<lparr>success := Some True,
                    message := Some ''Daily postback sent successfully and cache cleared'',
                    totalAmount := Some totalCached,
                    clearedEntries := Some clearedRows,
                    clickidUsed := Some primaryClickid,
                    nyTime := Some (nyLocale e)\<rparr>)))
          else
            await (log_conversion
                     \<lparr>log_clickid = primaryClickid, action = ''cron_postback_failed_final'',
                      cached_amount = None, total_sent = None\<rparr>) (\<lambda>_.
            ret (no_fields
                   \<lparr>success := Some False,
                    message := Some ''Daily postback failed - cache not cleared'',
                    totalAmount := Some totalCached,
                    error := errorMessage,
                    clickidUsed := Some primaryClickid,
                    nyTime := Some (nyLocale e)\<rparr>)))))))))
       (\<lambda>msg.
          await (log_conversion
                   \<lparr>log_clickid = ''vercel-cron'', action = ''cron_execution_error'',
                    cached_amount = None, total_sent = None\<rparr>) (\<lambda>_.
          ret (no_fields
                 \<lparr>success := Some False,
                  error := Some msg,
                  message := Some ''Daily postback execution error''\<rparr>)))"

definition cron_executeDailyPostback :: "env \<Rightarrow> result io" where
  "cron_executeDailyPostback e =
     cron_executeDailyPostback_with (logConversion e) (logPostback e) e"

section \<open>\<open>executeDailyPostback\<close> of \<^verbatim>\<open>pages/api/admin/manual-daily-postback.js\<close>\<close>

text \<open>
  Named \<open>executeDailyPostback\<close> in its file. It has no check of the day, and its failure
  branch returns without a log entry of its own.
\<close>

definition manual_executeDailyPostback_with ::
  "(log_data \<Rightarrow> unit io) \<Rightarrow> (postback \<Rightarrow> unit io) \<Rightarrow> env \<Rightarrow> result io" where
  "manual_executeDailyPostback_with log_conversion log_postback e =
     try_catch
       (await (getGlobalCachedTotal e) (\<lambda>totalCached.
        if totalCached \<le> 0 then
          await (log_conversion
                   \<lparr>log_clickid = ''manual-admin'', action = ''manual_no_cache'',
                    cached_amount = None, total_sent = None\<rparr>) (\<lambda>_.
          ret (no_fields
                 \<lparr>success := Some True,
                  message := Some ''No cached conversions to process'',
                  totalAmount := Some totalCached\<rparr>))
        else
          await (select_latest_clickid e) (\<lambda>clickidResult.
          let primaryClickid = clickid_or clickidResult ''manual-trigger'' in
          await (log_conversion
                   \<lparr>log_clickid = primaryClickid, action = ''manual_postback_preparing'',
                    cached_amount = Some totalCached, total_sent = Some totalCached\<rparr>) (\<lambda>_.
          let redtrackUrl = PostbackUrl primaryClickid totalCached in
          await (send_postback_with log_conversion e ''manual_postback_success'' ''manual_postback_failed''
                   primaryClickid totalCached redtrackUrl)
            (\<lambda>(postbackSuccess, responseText, errorMessage).
          await (log_postback
                   \<lparr>pb_clickid = primaryClickid, pb_amount = totalCached, pb_url = redtrackUrl,
                    pb_success = postbackSuccess, pb_response = responseText,
                    pb_error = errorMessage\<rparr>) (\<lambda>_.
          if postbackSuccess then
            await (clearAllCachedConversions e) (\<lambda>clearedRows.
            await (log_conversion
                     \<lparr>log_clickid = primaryClickid, action = ''manual_cache_cleared'',
                      cached_amount = None, total_sent = None\<rparr>) (\<lambda>_.
            ret (no_fields
                   \<lparr>success := Some True,
                    message := Some ''Manual daily postback sent successfully and cache cleared'',
                    totalAmount := Some totalCached,
                    clearedEntries := Some clearedRows,
                    clickidUsed := Some primaryClickid\<rparr>)))
          else
            ret (no_fields
                   \<lparr>success := Some False,
                    message := Some ''Manual daily postback failed - cache not cleared'',
                    totalAmount := Some totalCached,
                    error := errorMessage,
                    clickidUsed := Some primaryClickid\<rparr>)))))))
       (\<lambda>msg.
          await (log_conversion
                   \<lparr>log_clickid = ''manual-admin'', action = ''manual_execution_error'',
                    cached_amount = None, total_sent = None\<rparr>) (\<lambda>_.
          ret (no_fields
                 \<lparr>success := Some False,
                  error := Some msg,
                  message := Some ''Manual daily postback execution error''\<rparr>)))"

definition manual_executeDailyPostback :: "env \<Rightarrow> result io" where
  "manual_executeDailyPostback e =
     manual_executeDailyPostback_with (logConversion e) (logPostback e) e"

section \<open>\<open>executeForcedDailyPostback\<close> of \<^verbatim>\<open>pages/api/admin/force-daily-check.js\<close>\<close>

definition executeForcedDailyPostback_with ::
  "(log_data \<Rightarrow> unit io) \<Rightarrow> (postback \<Rightarrow> unit io) \<Rightarrow> env \<Rightarrow> result io" where
  "executeForcedDailyPostback_with log_conversion log_postback e =
     try_catch
       (await (getGlobalCachedTotal e) (\<lambda>totalCached.
        if totalCached \<le> 0 then
          await (log_conversion
                   \<lparr>log_clickid = ''admin-force-check'', action = ''force_no_cache'',
                    cached_amount = None, total_sent = None\<rparr>) (\<lambda>_.
          ret (no_fields
                 \<lparr>success := Some True,
                  message := Some ''No cached conversions to process'',
                  totalAmount := Some totalCached\<rparr>))
        else
          await (select_latest_clickid e) (\<lambda>clickidResult.
          let primaryClickid = clickid_or clickidResult ''force-check'' in
          await (log_conversion
                   \<lparr>log_clickid = primaryClickid, action = ''force_postback_preparing'',
                    cached_amount = Some totalCached, total_sent = Some totalCached\<rparr>) (\<lambda>_.
          let redtrackUrl = PostbackUrl primaryClickid totalCached in
          await (send_postback_with log_conversion e ''force_postback_success'' ''force_postback_failed''
                   primaryClickid totalCached redtrackUrl)
            (\<lambda>(postbackSuccess, responseText, errorMessage).
          await (log_postback
                   \<lparr>pb_clickid = primaryClickid, pb_amount = totalCached, pb_url = redtrackUrl,
                    pb_success = postbackSuccess, pb_response = responseText,
                    pb_error = errorMessage\<rparr>) (\<lambda>_.
          if postbackSuccess then
            await (clearAllCachedConversions e) (\<lambda>clearedRows.
            await (log_conversion
                     \<lparr>log_clickid = primaryClickid, action = ''force_cache_cleared'',
                      cached_amount = None, total_sent = None\<rparr>) (\<lambda>_.
            ret (no_fields
                   \<lparr>success := Some True,
                    message := Some ''Force daily check: postback sent successfully and cache cleared'',
                    totalAmount := Some totalCached,
                    clearedEntries := Some clearedRows,
                    clickidUsed := Some primaryClickid,
                    nyTime := Some (nyLocale e)\<rparr>)))
          else
            await (log_conversion
                     \<lparr>log_clickid = primaryClickid, action = ''force_postback_failed_final'',
                      cached_amount = None, total_sent = None\<rparr>) (\<lambda>_.
            ret (no_fields
                   \<lparr>success := Some False,
                    message := Some ''Force daily check: postback failed - cache not cleared'',
                    totalAmount := Some totalCached,
                    error := errorMessage,
                    clickidUsed := Some primaryClickid,
                    nyTime := Some (nyLocale e)\<rparr>))))))))
       (\<lambda>msg.
          await (log_conversion
                   \<lparr>log_clickid = ''admin-force-check'', action = ''force_execution_error'',
                    cached_amount = None, total_sent = None\<rparr>) (\<lambda>_.
          ret (no_fields
                 \<lparr>success := Some False,
                  error := Some msg,
                  message := Some ''Force daily check execution error''\<rparr>)))"

definition executeForcedDailyPostback :: "env \<Rightarrow> result io" where
  "executeForcedDailyPostback e =
     executeForcedDailyPostback_with (logConversion e) (logPostback e) e"

section \<open>The four engines together\<close>

datatype path = Timer | Cron | Manual | Forced

definition engine :: "path \<Rightarrow> env \<Rightarrow> result io" where
  "engine p =
     (case p of
        Timer \<Rightarrow> executeDailyPostback
      | Cron \<Rightarrow> cron_executeDailyPostback
      | Manual \<Rightarrow> manual_executeDailyPostback
      | Forced \<Rightarrow> executeForcedDailyPostback)"

section \<open>What a run is observed by\<close>

text \<open>The requests sent and the postback attempts recorded, read off a list of calls.\<close>

fun fetches :: "call list \<Rightarrow> url list" where
  "fetches [] = []"
| "fetches (Fetch u # cs) = u # fetches cs"
| "fetches (_ # cs) = fetches cs"

fun postbacks :: "call list \<Rightarrow> postback list" where
  "postbacks [] = []"
| "postbacks (LogPostback p # cs) = p # postbacks cs"
| "postbacks (_ # cs) = postbacks cs"

text \<open>The sum that \<open>getGlobalCachedTotal\<close> reads in a state.\<close>

definition pending_total :: "world \<Rightarrow> rat" where
  "pending_total w = sum_list (map amount (cached_conversions w))"

text \<open>The identifier an engine with fallback \<open>s\<close> picks in a state (\<open>primaryClickid\<close>).\<close>

definition representative :: "string \<Rightarrow> world \<Rightarrow> string" where
  "representative s w =
     clickid_or (case latest (cached_conversions w) of None \<Rightarrow> [] | Some r \<Rightarrow> [clickid r]) s"

text \<open>
  The failures of the notification, with the message the engine keeps: \<open>fetch\<close> rejects
  (a transport error or a timeout), the status is not a success status, or the body
  cannot be read. \<open>None\<close>: the notification succeeds, with the body \<open>notification_body\<close>.
\<close>

definition notification_error :: "env \<Rightarrow> string option" where
  "notification_error e =
     (case fetch_result e of
        Rejected msg \<Rightarrow> Some msg
      | Responded r \<Rightarrow>
          if \<not> ok r then Some (''HTTP error! status: '' @ show_nat (status r))
          else (case text_body r of Thrown msg \<Rightarrow> Some msg | Returned _ \<Rightarrow> None))"

definition notification_body :: "env \<Rightarrow> string" where
  "notification_body e =
     (case fetch_result e of
        Rejected msg \<Rightarrow> []
      | Responded r \<Rightarrow> (case text_body r of Thrown msg \<Rightarrow> [] | Returned b \<Rightarrow> b))"

text \<open>The same invocation with both log tables accepting their inserts.\<close>

definition healthy_logging :: "env \<Rightarrow> env" where
  "healthy_logging e = e\<lparr>log_insert_fails := False, history_insert_fails := False\<rparr>"

section \<open>The common shape of the four engines\<close>

text \<open>
  The four engines are one text with different constants: the fallback identifier, the
  identifier on entries without a clickid, the action tags, the messages, whether the
  result carries \<open>nyTime\<close>, and whether the failure branch writes a last entry (the
  manual engine does not). \<open>settle\<close> is that text over a table of the constants, and
  \<open>guarded\<close> puts the persisted check of the cron engine in front. They serve the
  proofs only: \<open>engine_common\<close> below shows that each engine of the sources is its
  instance, and every claim is stated on the engines of the sources.
\<close>

record labels =
  sentinel :: string
  actor :: string
  no_cache_action :: string
  preparing_action :: string
  success_action :: string
  failed_action :: string
  cleared_action :: string
  failed_final_action :: "string option"
  error_action :: string
  ok_message :: string
  failed_message :: string
  error_message :: string
  has_nyTime :: bool

definition labels :: "path \<Rightarrow> labels" where
  "labels p =
     (case p of
        Timer \<Rightarrow>
          \<lparr>sentinel = ''auto-scheduler'', actor = ''auto-scheduler'',
           no_cache_action = ''no_cache_to_process'',
           preparing_action = ''daily_postback_preparing'',
           success_action = ''daily_postback_success'',
           failed_action = ''daily_postback_failed'',
           cleared_action = ''daily_cache_cleared'',
           failed_final_action = Some ''daily_postback_failed_final'',
           error_action = ''daily_execution_error'',
           ok_message = ''Daily postback sent successfully and cache cleared'',
           failed_message = ''Daily postback failed - cache not cleared'',
           error_message = ''Daily postback execution error'',
           has_nyTime = False\<rparr>
      | Cron \<Rightarrow>
          \<lparr>sentinel = ''vercel-cron'', actor = ''vercel-cron'',
           no_cache_action = ''cron_no_cache'',
           preparing_action = ''cron_postback_preparing'',
           success_action = ''cron_postback_success'',
           failed_action = ''cron_postback_failed'',
           cleared_action = ''cron_cache_cleared'',
           failed_final_action = Some ''cron_postback_failed_final'',
           error_action = ''cron_execution_error'',
           ok_message = ''Daily postback sent successfully and cache cleared'',
           failed_message = ''Daily postback failed - cache not cleared'',
           error_message = ''Daily postback execution error'',
           has_nyTime = True\<rparr>
      | Manual \<Rightarrow>
          \<lparr>sentinel = ''manual-trigger'', actor = ''manual-admin'',
           no_cache_action = ''manual_no_cache'',
           preparing_action = ''manual_postback_preparing'',
           success_action = ''manual_postback_success'',
           failed_action = ''manual_postback_failed'',
           cleared_action = ''manual_cache_cleared'',
           failed_final_action = None,
           error_action = ''manual_execution_error'',
           ok_message = ''Manual daily postback sent successfully and cache cleared'',
           failed_message = ''Manual daily postback failed - cache not cleared'',
           error_message = ''Manual daily postback execution error'',
           has_nyTime = False\<rparr>
      | Forced \<Rightarrow>
          \<lparr>sentinel = ''force-check'', actor = ''admin-force-check'',
           no_cache_action = ''force_no_cache'',
           preparing_action = ''force_postback_preparing'',
           success_action = ''force_postback_success'',
           failed_action = ''force_postback_failed'',
           cleared_action = ''force_cache_cleared'',
           failed_final_action = Some ''force_postback_failed_final'',
           error_action = ''force_execution_error'',
           ok_message = ''Force daily check: postback sent successfully and cache cleared'',
           failed_message = ''Force daily check: postback failed - cache not cleared'',
           error_message = ''Force daily check execution error'',
           has_nyTime = True\<rparr>)"

definition plain :: "string \<Rightarrow> string \<Rightarrow> log_data" where
  "plain c a = \<lparr>log_clickid = c, action = a, cached_amount = None, total_sent = None\<rparr>"

definition with_total :: "string \<Rightarrow> string \<Rightarrow> rat \<Rightarrow> log_data" where
  "with_total c a t = \<lparr>log_clickid = c, action = a, cached_amount = Some t, total_sent = Some t\<rparr>"

definition settle :: "labels \<Rightarrow> env \<Rightarrow> result io" where
  "settle L e =
     await (getGlobalCachedTotal e) (\<lambda>totalCached.
     if totalCached \<le> 0 then
       await (logConversion e (plain (actor L) (no_cache_action L))) (\<lambda>_.
       ret (no_fields
              \<lparr>success := Some True,
               message := Some ''No cached conversions to process'',
               totalAmount := Some totalCached\<rparr>))
     else
       await (select_latest_clickid e) (\<lambda>clickidResult.
       let primaryClickid = clickid_or clickidResult (sentinel L) in
       await (logConversion e (with_total primaryClickid (preparing_action L) totalCached)) (\<lambda>_.
       let redtrackUrl = PostbackUrl primaryClickid totalCached in
       await (send_postback e (success_action L) (failed_action L)
                primaryClickid totalCached redtrackUrl)
         (\<lambda>(postbackSuccess, responseText, errorMessage).
       await (logPostback e
                \<lparr>pb_clickid = primaryClickid, pb_amount = totalCached, pb_url = redtrackUrl,
                 pb_success = postbackSuccess, pb_response = responseText,
                 pb_error = errorMessage\<rparr>) (\<lambda>_.
       if postbackSuccess then
         await (clearAllCachedConversions e) (\<lambda>clearedRows.
         await (logConversion e (plain primaryClickid (cleared_action L))) (\<lambda>_.
         ret (no_fields
                \<lparr>success := Some True,
                 message := Some (ok_message L),
                 totalAmount := Some totalCached,
                 clearedEntries := Some clearedRows,
                 clickidUsed := Some primaryClickid,
                 nyTime := (if has_nyTime L then Some (nyLocale e) else None)\<rparr>)))
       else
         await (case failed_final_action L of
                  None \<Rightarrow> ret ()
                | Some a \<Rightarrow> logConversion e (plain primaryClickid a)) (\<lambda>_.
         ret (no_fields
                \<lparr>success := Some False,
                 message := Some (failed_message L),
                 totalAmount := Some totalCached,
                 error := errorMessage,
                 clickidUsed := Some primaryClickid,
                 nyTime := (if has_nyTime L then Some (nyLocale e) else None)\<rparr>)))))))"

definition on_error :: "labels \<Rightarrow> env \<Rightarrow> string \<Rightarrow> result io" where
  "on_error L e =
     (\<lambda>msg.
        await (logConversion e (plain (actor L) (error_action L))) (\<lambda>_.
        ret (no_fields
               \<lparr>success := Some False,
                error := Some msg,
                message := Some (error_message L)\<rparr>)))"

definition guarded :: "path \<Rightarrow> env \<Rightarrow> result io \<Rightarrow> result io" where
  "guarded p e m =
     (if p = Cron then
        await (checkIfAlreadyRanToday e) (\<lambda>hasRunToday.
        if hasRunToday then
          await (logConversion e (plain ''vercel-cron'' ''cron_duplicate_prevented'')) (\<lambda>_.
          ret (no_fields
                 \<lparr>success := Some True,
                  message := Some ''Already processed today - duplicate prevented'',
                  skipped := Some True\<rparr>))
        else m)
      else m)"

text \<open>
  A state after some calls: the calls \<open>cs\<close> appended to the trace, the entries \<open>ls\<close> to
  \<open>conversion_logs\<close> and the attempts \<open>ps\<close> to the postback history, where the inserts
  of the invocation do not fail.
\<close>

definition advance :: "call list \<Rightarrow> log_data list \<Rightarrow> postback list \<Rightarrow> env \<Rightarrow> world \<Rightarrow> world" where
  "advance cs ls ps e w =
     w\<lparr>calls := calls w @ cs,
       conversion_logs :=
         conversion_logs w @ (if log_insert_fails e then [] else map (Pair (curdate e)) ls),
       postback_history :=
         postback_history w @ (if history_insert_fails e then [] else ps)\<rparr>"

definition already_ran :: "env \<Rightarrow> world \<Rightarrow> bool" where
  "already_ran e w =
     (count_error e = None \<and> filter (cron_success_today e) (conversion_logs w) \<noteq> [])"

definition pre :: "path \<Rightarrow> call list" where
  "pre p = (if p = Cron then [CountCronSuccessToday] else [])"

definition error_result :: "labels \<Rightarrow> string \<Rightarrow> result" where
  "error_result L m =
     no_fields\<lparr>success := Some False, error := Some m, message := Some (error_message L)\<rparr>"

definition final_logs :: "labels \<Rightarrow> string \<Rightarrow> log_data list" where
  "final_logs L c = (case failed_final_action L of None \<Rightarrow> [] | Some a \<Rightarrow> [plain c a])"

definition skip_result :: result where
  "skip_result =
     no_fields\<lparr>success := Some True,
               message := Some ''Already processed today - duplicate prevented'',
               skipped := Some True\<rparr>"

text \<open>The action tags an engine can write.\<close>

definition tags :: "path \<Rightarrow> string list" where
  "tags p =
     [no_cache_action (labels p), preparing_action (labels p), success_action (labels p),
      failed_action (labels p), cleared_action (labels p), error_action (labels p)]
     @ (case failed_final_action (labels p) of None \<Rightarrow> [] | Some a \<Rightarrow> [a])
     @ (if p = Cron then [''cron_duplicate_prevented''] else [])"

section \<open>Concrete inputs\<close>

text \<open>
  An invocation at 23:59 New York time in which the store works and the endpoint answers
  200 with the body \<open>OK\<close>, and a state with one cached conversion of 42.50 for the
  clickid \<open>abc123\<close>.
\<close>

definition quiet :: env where
  "quiet =
     \<lparr>currentDateString = ''Tue Jan 09 2024'', hour = 23, minute = 59,
      nyLocale = ''1/9/2024, 11:59:00 PM'', curdate = ''2024-01-09'',
      fetch_result = Responded \<lparr>status = 200, text_body = Returned ''OK''\<rparr>,
      total_error = None, select_error = None, count_error = None, clear_error = None,
      log_insert_fails = False, history_insert_fails = False\<rparr>"

definition one_pending :: world where
  "one_pending =
     \<lparr>cached_conversions = [\<lparr>clickid = ''abc123'', amount = 85 / 2, created_at = 1\<rparr>],
      conversion_logs = [], postback_history = [], lastDailyRun = None, calls = []\<rparr>"

definition nothing_pending :: world where
  "nothing_pending =
     \<lparr>cached_conversions = [], conversion_logs = [], postback_history = [],
      lastDailyRun = None, calls = []\<rparr>"

text \<open>The endpoint answers 500; the endpoint times out; the store is down.\<close>

definition refused :: env where
  "refused = quiet\<lparr>fetch_result := Responded \<lparr>status = 500, text_body = Returned ''busy''\<rparr>\<rparr>"

definition timed_out :: env where
  "timed_out = quiet\<lparr>fetch_result := Rejected ''network timeout''\<rparr>"

definition clear_down :: env where
  "clear_down = quiet\<lparr>clear_error := Some ''Connection lost''\<rparr>"

definition logs_down :: env where
  "logs_down = quiet\<lparr>log_insert_fails := True, history_insert_fails := True\<rparr>"

definition read_down :: env where
  "read_down = quiet\<lparr>total_error := Some ''connect ECONNREFUSED''\<rparr>"

definition query_down :: env where
  "query_down = quiet\<lparr>count_error := Some ''connect ECONNREFUSED''\<rparr>"

definition midmorning :: env where
  "midmorning = quiet\<lparr>hour := 10, minute := 5\<rparr>"

definition settled_by_cron :: world where
  "settled_by_cron =
     \<lparr>cached_conversions = [],
      conversion_logs = [(''2024-01-09'', plain ''abc123'' ''cron_cache_cleared'')],
      postback_history = [], lastDailyRun = None, calls = []\<rparr>"

text \<open>The \<open>success\<close> property of what an invocation returned, if it returned.\<close>

definition success_of :: "result outcome \<Rightarrow> bool option" where
  "success_of r = (case r of Returned res \<Rightarrow> success res | Thrown _ \<Rightarrow> None)"

section \<open>Properties\<close>

subsection \<open>Runs in closed form\<close>

lemma await_ret [simp]: "await (ret x) k = k x"
  by (rule ext) (simp add: await_def ret_def)

lemma engine_common:
  "engine p e = try_catch (guarded p e (settle (labels p) e)) (on_error (labels p) e)"
  by (cases p)
     (simp_all add: engine_def executeDailyPostback_def cron_executeDailyPostback_def
        manual_executeDailyPostback_def executeForcedDailyPostback_def
        executeDailyPostback_with_def cron_executeDailyPostback_with_def
        manual_executeDailyPostback_with_def executeForcedDailyPostback_with_def
        send_postback_def
        guarded_def settle_def on_error_def labels_def plain_def with_total_def
        no_fields_def Let_def cong: if_cong)

lemma cron_is_engine: "cron_executeDailyPostback = engine Cron"
  by (simp add: engine_def)

lemma advance_advance [simp]:
  "advance cs' ls' ps' e (advance cs ls ps e w) = advance (cs @ cs') (ls @ ls') (ps @ ps') e w"
  by (simp add: advance_def)

lemma advance_cleared [simp]:
  "advance cs ls ps e (w\<lparr>cached_conversions := x\<rparr>) =
     (advance cs ls ps e w)\<lparr>cached_conversions := x\<rparr>"
  by (simp add: advance_def)

lemma advance_nil [simp]: "advance [] [] [] e w = w"
  by (simp add: advance_def)

lemma advance_sel [simp]:
  "cached_conversions (advance cs ls ps e w) = cached_conversions w"
  "lastDailyRun (advance cs ls ps e w) = lastDailyRun w"
  "calls (advance cs ls ps e w) = calls w @ cs"
  "conversion_logs (advance cs ls ps e w) =
     conversion_logs w @ (if log_insert_fails e then [] else map (Pair (curdate e)) ls)"
  "postback_history (advance cs ls ps e w) =
     postback_history w @ (if history_insert_fails e then [] else ps)"
  by (simp_all add: advance_def)

lemma pending_total_advance [simp]: "pending_total (advance cs ls ps e w) = pending_total w"
  by (simp add: pending_total_def)

lemma representative_advance [simp]:
  "representative s (advance cs ls ps e w) = representative s w"
  by (simp add: representative_def)

lemma issued_advance [simp]:
  "issued w (advance cs ls ps e w) = cs"
  "issued w ((advance cs ls ps e w)\<lparr>cached_conversions := x\<rparr>) = cs"
  by (simp_all add: issued_def)

lemma getGlobalCachedTotal_run:
  "getGlobalCachedTotal e w =
     (case total_error e of Some m \<Rightarrow> Thrown m | None \<Rightarrow> Returned (pending_total w),
      advance [GetGlobalCachedTotal] [] [] e w)"
  by (simp add: getGlobalCachedTotal_def advance_def record_call_def pending_total_def
      split: option.splits)

lemma select_latest_clickid_run:
  "select_latest_clickid e w =
     (case select_error e of
        Some m \<Rightarrow> Thrown m
      | None \<Rightarrow>
          Returned (case latest (cached_conversions w) of None \<Rightarrow> [] | Some r \<Rightarrow> [clickid r]),
      advance [SelectLatestClickid] [] [] e w)"
  by (simp add: select_latest_clickid_def advance_def record_call_def split: option.splits)

lemma logConversion_run:
  "logConversion e d w = (Returned (), advance [LogConversion d] [d] [] e w)"
  by (simp add: logConversion_def advance_def record_call_def)

lemma logPostback_run:
  "logPostback e p w = (Returned (), advance [LogPostback p] [] [p] e w)"
  by (simp add: logPostback_def advance_def record_call_def)

lemma clearAllCachedConversions_run:
  "clearAllCachedConversions e w =
     (case clear_error e of
        Some m \<Rightarrow> (Thrown m, advance [ClearAllCachedConversions] [] [] e w)
      | None \<Rightarrow> (Returned (length (cached_conversions w)),
                 (advance [ClearAllCachedConversions] [] [] e w)\<lparr>cached_conversions := []\<rparr>))"
  by (simp add: clearAllCachedConversions_def advance_def record_call_def split: option.splits)

lemma checkIfAlreadyRanToday_run:
  "checkIfAlreadyRanToday e w =
     (Returned (already_ran e w), advance [CountCronSuccessToday] [] [] e w)"
  by (simp add: checkIfAlreadyRanToday_def try_catch_def await_def ret_def
      count_cron_success_today_def already_ran_def advance_def record_call_def
      split: option.splits)

lemma send_postback_run:
  "send_postback e sa fa c t u w =
     (case notification_error e of
        Some m \<Rightarrow>
          (Returned (False, [], Some m),
           advance [Fetch u, LogConversion (with_total c fa t)] [with_total c fa t] [] e w)
      | None \<Rightarrow>
          (Returned (True, notification_body e, None),
           advance [Fetch u, LogConversion (with_total c sa t)] [with_total c sa t] [] e w))"
  by (simp add: send_postback_def send_postback_with_def send_failed_with_def await_or_def
      await_def ret_def fetch_def
      response_text_def logConversion_run notification_error_def notification_body_def
      with_total_def Let_def advance_def record_call_def
      split: fetch_outcome.splits outcome.splits)

lemma settle_run:
  "settle L e w =
     (let t = pending_total w; c = representative (sentinel L) w; u = PostbackUrl c t;
          prep = with_total c (preparing_action L) t;
          sent = with_total c (success_action L) t;
          unsent = with_total c (failed_action L) t
      in
      case total_error e of
        Some m \<Rightarrow> (Thrown m, advance [GetGlobalCachedTotal] [] [] e w)
      | None \<Rightarrow>
          if t \<le> 0 then
            (Returned (no_fields\<lparr>success := Some True,
                                message := Some ''No cached conversions to process'',
                                totalAmount := Some t\<rparr>),
             advance [GetGlobalCachedTotal, LogConversion (plain (actor L) (no_cache_action L))]
               [plain (actor L) (no_cache_action L)] [] e w)
          else
            (case select_error e of
               Some m \<Rightarrow> (Thrown m, advance [GetGlobalCachedTotal, SelectLatestClickid] [] [] e w)
             | None \<Rightarrow>
                 (case notification_error e of
                    Some m \<Rightarrow>
                      (Returned
                         (no_fields\<lparr>success := Some False,
                                    message := Some (failed_message L),
                                    totalAmount := Some t,
                                    error := Some m,
                                    clickidUsed := Some c,
                                    nyTime := (if has_nyTime L then Some (nyLocale e) else None)\<rparr>),
                       advance
                         ([GetGlobalCachedTotal, SelectLatestClickid, LogConversion prep, Fetch u,
                           LogConversion unsent,
                           LogPostback \<lparr>pb_clickid = c, pb_amount = t, pb_url = u,
                                        pb_success = False, pb_response = [],
                                        pb_error = Some m\<rparr>]
                          @ map LogConversion (final_logs L c))
                         ([prep, unsent] @ final_logs L c)
                         [\<lparr>pb_clickid = c, pb_amount = t, pb_url = u,
                           pb_success = False, pb_response = [], pb_error = Some m\<rparr>] e w)
                  | None \<Rightarrow>
                      (case clear_error e of
                         Some m \<Rightarrow>
                           (Thrown m,
                            advance
                              [GetGlobalCachedTotal, SelectLatestClickid, LogConversion prep,
                               Fetch u, LogConversion sent,
                               LogPostback \<lparr>pb_clickid = c, pb_amount = t, pb_url = u,
                                            pb_success = True,
                                            pb_response = notification_body e,
                                            pb_error = None\<rparr>,
                               ClearAllCachedConversions]
                              [prep, sent]
                              [\<lparr>pb_clickid = c, pb_amount = t, pb_url = u,
                                pb_success = True, pb_response = notification_body e,
                                pb_error = None\<rparr>] e w)
                       | None \<Rightarrow>
                           (Returned
                              (no_fields\<lparr>success := Some True,
                                         message := Some (ok_message L),
                                         totalAmount := Some t,
                                         clearedEntries := Some (length (cached_conversions w)),
                                         clickidUsed := Some c,
                                         nyTime :=
                                           (if has_nyTime L then Some (nyLocale e) else None)\<rparr>),
                            (advance
                              [GetGlobalCachedTotal, SelectLatestClickid, LogConversion prep,
                               Fetch u, LogConversion sent,
                               LogPostback \<lparr>pb_clickid = c, pb_amount = t, pb_url = u,
                                            pb_success = True,
                                            pb_response = notification_body e,
                                            pb_error = None\<rparr>,
                               ClearAllCachedConversions,
                               LogConversion (plain c (cleared_action L))]
                              [prep, sent, plain c (cleared_action L)]
                              [\<lparr>pb_clickid = c, pb_amount = t, pb_url = u,
                                pb_success = True, pb_response = notification_body e,
                                pb_error = None\<rparr>] e w)\<lparr>cached_conversions := []\<rparr>)))))"
  by (simp add: settle_def await_def ret_def Let_def getGlobalCachedTotal_run
      select_latest_clickid_run logConversion_run logPostback_run clearAllCachedConversions_run
      send_postback_run representative_def final_logs_def
      split: option.splits)

lemma engine_run:
  "engine p e w =
     (if p = Cron \<and> already_ran e w then
        (Returned skip_result,
         advance
           [CountCronSuccessToday, LogConversion (plain ''vercel-cron'' ''cron_duplicate_prevented'')]
           [plain ''vercel-cron'' ''cron_duplicate_prevented''] [] e w)
      else
        (case settle (labels p) e (advance (pre p) [] [] e w) of
           (Returned res, w') \<Rightarrow> (Returned res, w')
         | (Thrown m, w') \<Rightarrow>
             (Returned (error_result (labels p) m),
              advance [LogConversion (plain (actor (labels p)) (error_action (labels p)))]
                [plain (actor (labels p)) (error_action (labels p))] [] e w')))"
  by (simp add: engine_common try_catch_def guarded_def await_def ret_def on_error_def
      checkIfAlreadyRanToday_run logConversion_run pre_def skip_result_def error_result_def
      split: prod.splits outcome.splits)

lemmas run_simps = engine_run settle_run Let_def pre_def final_logs_def no_fields_def
  error_result_def skip_result_def

lemmas eval_simps = run_simps quiet_def one_pending_def nothing_pending_def refused_def
  timed_out_def clear_down_def logs_down_def read_down_def
  query_down_def midmorning_def pending_total_def representative_def
  clickid_or_def notification_error_def notification_body_def ok_def labels_def plain_def
  with_total_def already_ran_def cron_success_today_def advance_def issued_def show_nat.simps
  healthy_logging_def

lemma engine_returns: "\<exists>res. fst (engine p e w) = Returned res"
  by (auto simp: run_simps split: if_splits option.splits)

lemma engine_keeps_marker: "lastDailyRun (snd (engine p e w)) = lastDailyRun w"
  by (auto simp: run_simps split: if_splits option.splits)

lemma checkAndRunDailyPostback_run:
  "checkAndRunDailyPostback e w =
     (if lastDailyRun w = Some (currentDateString e) then
        (Returned (no_fields\<lparr>skipped := Some True, reason := Some ''Already ran today''\<rparr>), w)
      else if \<not> (hour e = 23 \<and> minute e = 59) then
        (Returned (no_fields
                     \<lparr>skipped := Some True,
                      reason := Some (''Not in time window. Current NY time: '' @ show_nat (hour e)
                                      @ '':'' @ padStart2 (show_nat (minute e)))\<rparr>), w)
      else
        engine Timer e
          (advance [LogConversion (plain ''auto-scheduler'' ''daily_auto_trigger'')]
             [plain ''auto-scheduler'' ''daily_auto_trigger''] [] e
             (w\<lparr>lastDailyRun := Some (currentDateString e)\<rparr>)))"
proof -
  obtain res where "fst (engine Timer e
          (advance [LogConversion (plain ''auto-scheduler'' ''daily_auto_trigger'')]
             [plain ''auto-scheduler'' ''daily_auto_trigger''] [] e
             (w\<lparr>lastDailyRun := Some (currentDateString e)\<rparr>))) = Returned res"
    using engine_returns by blast
  then show ?thesis
    by (auto simp: checkAndRunDailyPostback_def try_catch_def await_def ret_def Let_def
        set_lastDailyRun_def logConversion_run plain_def engine_def
        split: prod.splits outcome.splits)
qed

lemma calls_grow: "engine p e w = (r, w') \<Longrightarrow> \<exists>cs. calls w' = calls w @ cs"
  by (auto simp: run_simps issued_def split: if_splits option.splits)

lemma issued_trans:
  assumes "calls w1 = calls w @ a" and "calls w2 = calls w1 @ b"
  shows "issued w w2 = issued w w1 @ issued w1 w2"
  using assms by (simp add: issued_def)

lemma fetches_append: "fetches (xs @ ys) = fetches xs @ fetches ys"
  by (induction xs rule: fetches.induct) simp_all

lemma run_bounds:
  assumes "engine p e w = (r, w')"
  shows "count_list (issued w w') ClearAllCachedConversions \<le> 1
       \<and> length (fetches (issued w w')) \<le> 1
       \<and> (ClearAllCachedConversions \<in> set (issued w w') \<longrightarrow>
            fetches (issued w w') \<noteq> [] \<and> notification_error e = None)"
  using assms by (auto simp: run_simps split: if_splits option.splits)

lemma cron_skips:
  assumes "engine Cron e w = (r, w')" and "already_ran e w"
  shows "fetches (issued w w') = [] \<and> count_list (issued w w') ClearAllCachedConversions = 0"
  using assms by (auto simp: engine_run)

lemma cron_success_is_logged:
  assumes "engine Cron e w = (r, w')"
      and "fetches (issued w w') \<noteq> []" and "notification_error e = None"
      and "\<not> log_insert_fails e"
  shows "filter (cron_success_today e') (conversion_logs w') \<noteq> [] \<or> curdate e' \<noteq> curdate e"
  using assms
  by (auto simp: run_simps cron_success_today_def labels_def with_total_def
      split: if_splits option.splits)

lemma cron_success_today_healthy [simp]:
  "cron_success_today (healthy_logging e) = cron_success_today e"
  by (rule ext) (simp add: cron_success_today_def healthy_logging_def)

lemma healthy_sel [simp]:
  "notification_error (healthy_logging e) = notification_error e"
  "notification_body (healthy_logging e) = notification_body e"
  "total_error (healthy_logging e) = total_error e"
  "select_error (healthy_logging e) = select_error e"
  "clear_error (healthy_logging e) = clear_error e"
  "nyLocale (healthy_logging e) = nyLocale e"
  "already_ran (healthy_logging e) w = already_ran e w"
  by (simp_all add: notification_error_def notification_body_def already_ran_def)
    (simp_all add: healthy_logging_def)

lemma engine_logs:
  "\<exists>ls. conversion_logs (snd (engine p e w)) = conversion_logs w @ ls
        \<and> (\<forall>row \<in> set ls. action (snd row) \<in> set (tags p))"
proof -
  let ?ls = "drop (length (conversion_logs w)) (conversion_logs (snd (engine p e w)))"
  have "conversion_logs (snd (engine p e w)) = conversion_logs w @ ?ls
        \<and> (\<forall>row \<in> set ?ls. action (snd row) \<in> set (tags p))"
    by (simp add: run_simps tags_def plain_def with_total_def split: option.splits) auto
  then show ?thesis by blast
qed

subsection \<open>Failed notifications\<close>

text \<open>
  C1: in every invocation of an engine that sends the notification and in which the
  notification fails (\<open>fetch\<close> rejects on a timeout or a transport error, the status is
  not a success status, or the body cannot be read), no cached conversion is deleted and
  \<open>clearAllCachedConversions\<close> is not called; \<open>logPostback\<close> is called exactly once, with
  \<open>success = false\<close> and the error message, and its row is appended to the history
  unless the insert itself fails; the engine returns a result with \<open>success: false\<close> and
  the error message.
\<close>

theorem failed_notification_keeps_pending:
  assumes "engine p e w = (r, w')"
      and "fetches (issued w w') \<noteq> []"
      and "notification_error e = Some m"
  shows "cached_conversions w' = cached_conversions w
       \<and> ClearAllCachedConversions \<notin> set (issued w w')
       \<and> (\<exists>pb. postbacks (issued w w') = [pb] \<and> pb_success pb = False \<and> pb_error pb = Some m
             \<and> postback_history w' =
                 postback_history w @ (if history_insert_fails e then [] else [pb]))
       \<and> (\<exists>res. r = Returned res \<and> success res = Some False \<and> error res = Some m)"
  using assms
  by (auto simp: run_simps split: if_splits option.splits)

text \<open>
  The timer engine, 42.50 cached for \<open>abc123\<close>, the request times out: the row stays, one
  failed attempt is recorded, and the result names the timeout.
\<close>

theorem failed_notification_keeps_pending_witness:
  "fetches (issued one_pending (snd (engine Timer timed_out one_pending))) \<noteq> []
   \<and> notification_error timed_out = Some ''network timeout''
   \<and> cached_conversions (snd (engine Timer timed_out one_pending)) =
       cached_conversions one_pending
   \<and> ClearAllCachedConversions \<notin> set (issued one_pending (snd (engine Timer timed_out one_pending)))
   \<and> postback_history (snd (engine Timer timed_out one_pending)) =
       [\<lparr>pb_clickid = ''abc123'', pb_amount = 85 / 2, pb_url = PostbackUrl ''abc123'' (85 / 2),
         pb_success = False, pb_response = [], pb_error = Some ''network timeout''\<rparr>]
   \<and> fst (engine Timer timed_out one_pending) =
       Returned (no_fields
                   \<lparr>success := Some False,
                    message := Some ''Daily postback failed - cache not cleared'',
                    totalAmount := Some (85 / 2),
                    error := Some ''network timeout'',
                    clickidUsed := Some ''abc123''\<rparr>)"
  using failed_notification_keeps_pending
    [of Timer timed_out one_pending "fst (engine Timer timed_out one_pending)"
        "snd (engine Timer timed_out one_pending)" "''network timeout''"]
  by (simp add: eval_simps)

subsection \<open>Successful notifications\<close>

text \<open>
  The notification succeeds and the delete that follows it throws: the error reaches the
  outer \<open>catch\<close>, the result is the execution-error result with \<open>success: false\<close>, and the
  cached conversion is still there.
\<close>

theorem success_then_clear_fails_counterexample:
  "notification_error clear_down = None
   \<and> fetches (issued one_pending (snd (engine Timer clear_down one_pending))) \<noteq> []
   \<and> cached_conversions (snd (engine Timer clear_down one_pending)) =
       cached_conversions one_pending
   \<and> cached_conversions one_pending \<noteq> []
   \<and> fst (engine Timer clear_down one_pending) =
       Returned (no_fields
                   \<lparr>success := Some False,
                    error := Some ''Connection lost'',
                    message := Some ''Daily postback execution error''\<rparr>)"
  by (simp add: eval_simps)

text \<open>
  C2 (amended): in every invocation of an engine that sends the notification, in which
  the notification succeeds and \<open>clearAllCachedConversions\<close> does not throw, the cached
  conversions are all deleted and the engine returns \<open>success: true\<close> with the path's
  success message, \<open>totalAmount\<close> the total read before the request, \<open>clearedEntries\<close> the
  number of cached conversions at the delete, \<open>clickidUsed\<close> the representative
  identifier, and \<open>nyTime\<close> on the cron and forced paths.
\<close>

theorem successful_notification_clears_pending:
  assumes "engine p e w = (r, w')"
      and "fetches (issued w w') \<noteq> []"
      and "notification_error e = None"
      and "clear_error e = None"
  shows "cached_conversions w' = []
       \<and> r = Returned (no_fields
                \<lparr>success := Some True,
                 message := Some (ok_message (labels p)),
                 totalAmount := Some (pending_total w),
                 clearedEntries := Some (length (cached_conversions w)),
                 clickidUsed := Some (representative (sentinel (labels p)) w),
                 nyTime := (if has_nyTime (labels p) then Some (nyLocale e) else None)\<rparr>)"
  using assms
  by (auto simp: run_simps split: if_splits option.splits)

text \<open>The scenario of the specification: 42.50 for \<open>abc123\<close>, the endpoint answers 200.\<close>

theorem successful_notification_clears_pending_witness:
  "fetches (issued one_pending (snd (engine Timer quiet one_pending))) \<noteq> []
   \<and> notification_error quiet = None
   \<and> clear_error quiet = None
   \<and> cached_conversions (snd (engine Timer quiet one_pending)) = []
   \<and> fst (engine Timer quiet one_pending) =
       Returned (no_fields
                   \<lparr>success := Some True,
                    message := Some ''Daily postback sent successfully and cache cleared'',
                    totalAmount := Some (85 / 2),
                    clearedEntries := Some 1,
                    clickidUsed := Some ''abc123''\<rparr>)"
  using successful_notification_clears_pending
    [of Timer quiet one_pending "fst (engine Timer quiet one_pending)"
        "snd (engine Timer quiet one_pending)"]
  by (simp add: eval_simps)

text \<open>
  When the clear throws after a successful notification, in any invocation: the cached
  conversions stay and the result is the path's execution-error result.
\<close>

lemma success_then_clear_throws:
  assumes "engine p e w = (r, w')"
      and "fetches (issued w w') \<noteq> []"
      and "notification_error e = None"
      and "clear_error e = Some m"
  shows "cached_conversions w' = cached_conversions w
       \<and> r = Returned (no_fields\<lparr>success := Some False, error := Some m,
                              message := Some (error_message (labels p))\<rparr>)"
  using assms
  by (auto simp: run_simps split: if_splits option.splits)

subsection \<open>Two invocations of the cron engine\<close>

text \<open>
  The first invocation meets a 500, the second the same day a 200: the persisted check
  counts successes only, so the second invocation sends again, and two requests leave.
\<close>

theorem retry_after_failure_counterexample:
  "count_error quiet = None
   \<and> curdate quiet = curdate refused
   \<and> log_insert_fails refused = False
   \<and> length (fetches (issued one_pending
        (snd (cron_executeDailyPostback quiet
           (snd (cron_executeDailyPostback refused one_pending)))))) = 2"
  by (simp add: cron_is_engine eval_simps)

text \<open>
  C3 (amended): for two invocations of the cron engine one after the other, on the same
  database date, where the first invocation's log inserts do not fail and the second's
  count query succeeds, and whatever conversions are cached between the two: the cached
  conversions are cleared at most once, and at most one request is sent unless the first
  notification failed. A failed first notification is not a run of the day, and the
  second invocation sends again: at most two requests.
\<close>

theorem two_cron_runs_settle_once:
  assumes r1: "cron_executeDailyPostback e1 w = (r1, w1)"
      and r2: "cron_executeDailyPostback e2 (w1\<lparr>cached_conversions := pending\<rparr>) = (r2, w2)"
      and d: "curdate e2 = curdate e1"
      and q: "count_error e2 = None"
      and l: "\<not> log_insert_fails e1"
  shows "count_list (issued w w2) ClearAllCachedConversions \<le> 1
       \<and> length (fetches (issued w w2)) \<le> 2
       \<and> (notification_error e1 = None \<longrightarrow> length (fetches (issued w w2)) \<le> 1)"
proof -
  let ?w1 = "w1\<lparr>cached_conversions := pending\<rparr>"
  have e1: "engine Cron e1 w = (r1, w1)" and e2: "engine Cron e2 ?w1 = (r2, w2)"
    using r1 r2 by (simp_all add: cron_is_engine)
  have i2: "issued ?w1 w2 = issued w1 w2" by (simp add: issued_def)
  obtain a where g1: "calls w1 = calls w @ a" using calls_grow [OF e1] by blast
  obtain b where g2: "calls w2 = calls w1 @ b" using calls_grow [OF e2] by auto
  have all: "issued w w2 = issued w w1 @ issued w1 w2" using issued_trans [OF g1 g2] .
  have b1: "count_list (issued w w1) ClearAllCachedConversions \<le> 1
       \<and> length (fetches (issued w w1)) \<le> 1
       \<and> (ClearAllCachedConversions \<in> set (issued w w1) \<longrightarrow>
            fetches (issued w w1) \<noteq> [] \<and> notification_error e1 = None)"
    using run_bounds [OF e1] .
  have b2: "count_list (issued w1 w2) ClearAllCachedConversions \<le> 1
       \<and> length (fetches (issued w1 w2)) \<le> 1"
    using run_bounds [OF e2] i2 by simp
  show ?thesis
  proof (cases "fetches (issued w w1) \<noteq> [] \<and> notification_error e1 = None")
    case True
    then have "filter (cron_success_today e2) (conversion_logs w1) \<noteq> []"
      using cron_success_is_logged [OF e1 _ _ l, of e2] d by simp
    then have "already_ran e2 ?w1" using q by (simp add: already_ran_def)
    from cron_skips [OF e2 this] i2
    have "fetches (issued w1 w2) = [] \<and> count_list (issued w1 w2) ClearAllCachedConversions = 0"
      by simp
    with b1 all show ?thesis by (simp add: fetches_append)
  next
    case False
    with b1 have "ClearAllCachedConversions \<notin> set (issued w w1)" by blast
    then have c0: "count_list (issued w w1) ClearAllCachedConversions = 0"
      by (simp add: count_list_0_iff)
    from False have "notification_error e1 = None \<longrightarrow> fetches (issued w w1) = []" by blast
    with b1 b2 c0 all show ?thesis by (auto simp: fetches_append)
  qed
qed

text \<open>
  Two invocations that both meet a 200, with a new conversion cached in between: the
  second is stopped by the check, and one request and one clear are all there is.
\<close>

theorem two_cron_runs_settle_once_witness:
  "curdate quiet = curdate quiet
   \<and> count_error quiet = None
   \<and> log_insert_fails quiet = False
   \<and> notification_error quiet = None
   \<and> count_list
        (issued one_pending
          (snd (cron_executeDailyPostback quiet
             ((snd (cron_executeDailyPostback quiet one_pending))
                \<lparr>cached_conversions := [\<lparr>clickid = ''late'', amount = 5, created_at = 2\<rparr>]\<rparr>))))
        ClearAllCachedConversions = 1
   \<and> length (fetches
        (issued one_pending
          (snd (cron_executeDailyPostback quiet
             ((snd (cron_executeDailyPostback quiet one_pending))
                \<lparr>cached_conversions := [\<lparr>clickid = ''late'', amount = 5, created_at = 2\<rparr>]\<rparr>))))) = 1"
  using two_cron_runs_settle_once
    [of quiet one_pending "fst (cron_executeDailyPostback quiet one_pending)"
        "snd (cron_executeDailyPostback quiet one_pending)" quiet
        "[\<lparr>clickid = ''late'', amount = 5, created_at = 2\<rparr>]"
        "fst (cron_executeDailyPostback quiet
             ((snd (cron_executeDailyPostback quiet one_pending))
                \<lparr>cached_conversions := [\<lparr>clickid = ''late'', amount = 5, created_at = 2\<rparr>]\<rparr>))"
        "snd (cron_executeDailyPostback quiet
             ((snd (cron_executeDailyPostback quiet one_pending))
                \<lparr>cached_conversions := [\<lparr>clickid = ''late'', amount = 5, created_at = 2\<rparr>]\<rparr>))"]
  by (simp add: cron_is_engine eval_simps)

subsection \<open>Nothing to settle\<close>

text \<open>
  C4: in every invocation of an engine that reads the total and reads a total \<open>\<le> 0\<close>
  (0 included), the engine returns \<open>{success: true, message: 'No cached conversions to
  process', totalAmount: total}\<close>, sends no request and does not call \<open>logPostback\<close>; the
  postback history and the cached conversions are as before.
\<close>

theorem no_op_when_total_not_positive:
  assumes "engine p e w = (r, w')"
      and "GetGlobalCachedTotal \<in> set (issued w w')"
      and "total_error e = None"
      and "pending_total w \<le> 0"
  shows "r = Returned (no_fields\<lparr>success := Some True,
                          message := Some ''No cached conversions to process'',
                          totalAmount := Some (pending_total w)\<rparr>)
       \<and> fetches (issued w w') = [] \<and> postbacks (issued w w') = []
       \<and> postback_history w' = postback_history w
       \<and> cached_conversions w' = cached_conversions w"
  using assms
  by (auto simp: run_simps split: if_splits)

text \<open>The scenario of the specification: no cached conversion, total 0, on the cron path.\<close>

theorem no_op_when_total_not_positive_witness:
  "GetGlobalCachedTotal \<in> set (issued nothing_pending (snd (engine Cron quiet nothing_pending)))
   \<and> total_error quiet = None
   \<and> pending_total nothing_pending \<le> 0
   \<and> fst (engine Cron quiet nothing_pending) =
       Returned (no_fields\<lparr>success := Some True,
                   message := Some ''No cached conversions to process'',
                   totalAmount := Some 0\<rparr>)
   \<and> fetches (issued nothing_pending (snd (engine Cron quiet nothing_pending))) = []
   \<and> postbacks (issued nothing_pending (snd (engine Cron quiet nothing_pending))) = []"
  using no_op_when_total_not_positive
    [of Cron quiet nothing_pending "fst (engine Cron quiet nothing_pending)"
        "snd (engine Cron quiet nothing_pending)"]
  by (simp add: eval_simps)

subsection \<open>The persisted check\<close>

text \<open>
  The timer engine settles 42.50 and writes its success entries (\<open>daily_postback_success\<close>,
  \<open>daily_cache_cleared\<close>) with today's date; the check of the cron path, asked the same
  day, still answers false.
\<close>

theorem timer_success_not_counted_counterexample:
  "fst (engine Timer quiet one_pending) =
     Returned (no_fields
                 \<lparr>success := Some True,
                  message := Some ''Daily postback sent successfully and cache cleared'',
                  totalAmount := Some (85 / 2),
                  clearedEntries := Some 1,
                  clickidUsed := Some ''abc123''\<rparr>)
   \<and> (curdate quiet, with_total ''abc123'' ''daily_postback_success'' (85 / 2))
       \<in> set (conversion_logs (snd (engine Timer quiet one_pending)))
   \<and> (curdate quiet, plain ''abc123'' ''daily_cache_cleared'')
       \<in> set (conversion_logs (snd (engine Timer quiet one_pending)))
   \<and> fst (checkIfAlreadyRanToday quiet (snd (engine Timer quiet one_pending))) = Returned False"
  by (simp add: eval_simps checkIfAlreadyRanToday_run)

text \<open>
  C5 (amended): the persisted check of the cron path returns true exactly when its query
  succeeds and the log holds an entry of today whose action is \<open>cron_postback_success\<close>
  or \<open>cron_cache_cleared\<close>, the two tags of the cron path. The entries that the timer,
  manual and forced engines write carry other tags: an invocation of one of them never
  changes the answer of the check.
\<close>

theorem checkIfAlreadyRanToday_counts_cron_entries:
  "fst (checkIfAlreadyRanToday e w) =
     Returned (count_error e = None
               \<and> (\<exists>row \<in> set (conversion_logs w).
                     (action (snd row) = ''cron_postback_success''
                      \<or> action (snd row) = ''cron_cache_cleared'')
                     \<and> fst row = curdate e))
   \<and> (p \<noteq> Cron \<longrightarrow>
        fst (checkIfAlreadyRanToday e (snd (engine p e' w))) = fst (checkIfAlreadyRanToday e w))"
proof -
  have "p \<noteq> Cron \<longrightarrow> already_ran e (snd (engine p e' w)) = already_ran e w"
  proof
    assume other: "p \<noteq> Cron"
    have no: "\<forall>a \<in> set (tags p). \<not> (a = ''cron_postback_success'' \<or> a = ''cron_cache_cleared'')"
      using other by (cases p) (simp_all add: tags_def labels_def)
    obtain ls where ls: "conversion_logs (snd (engine p e' w)) = conversion_logs w @ ls"
      and tg: "\<forall>row \<in> set ls. action (snd row) \<in> set (tags p)"
      using engine_logs by blast
    from no tg have "\<forall>row \<in> set ls. \<not> cron_success_today e row"
      by (auto simp: cron_success_today_def)
    then have "filter (cron_success_today e) ls = []"
      by (simp add: filter_empty_conv)
    with ls show "already_ran e (snd (engine p e' w)) = already_ran e w"
      by (simp add: already_ran_def)
  qed
  then show ?thesis
    by (auto simp: checkIfAlreadyRanToday_run already_ran_def filter_empty_conv
        cron_success_today_def)
qed

text \<open>
  After a successful invocation of the cron engine the check answers true; a forced
  invocation does not change what it answered before.
\<close>

theorem checkIfAlreadyRanToday_counts_cron_entries_witness:
  "fst (checkIfAlreadyRanToday quiet (snd (engine Cron quiet one_pending))) = Returned True
   \<and> Forced \<noteq> Cron
   \<and> fst (checkIfAlreadyRanToday quiet (snd (engine Forced quiet one_pending))) = Returned False"
  using checkIfAlreadyRanToday_counts_cron_entries
    [of quiet "snd (engine Cron quiet one_pending)" Forced quiet]
    checkIfAlreadyRanToday_counts_cron_entries [of quiet one_pending Forced quiet]
  by (simp add: eval_simps)

text \<open>
  C6: when the query of the persisted check throws, the check returns false ("not yet
  run"): nothing is thrown to the caller and the state is untouched but for the query.
\<close>

theorem checkIfAlreadyRanToday_fails_open:
  assumes "count_error e = Some msg"
  shows "checkIfAlreadyRanToday e w = (Returned False, record_call CountCronSuccessToday w)"
  using assms
  by (simp add: checkIfAlreadyRanToday_def try_catch_def await_def count_cron_success_today_def
      ret_def)

text \<open>The store refuses the connection while the log holds a success entry of today.\<close>

theorem checkIfAlreadyRanToday_fails_open_witness:
  "count_error query_down = Some ''connect ECONNREFUSED''
   \<and> (curdate query_down, plain ''abc123'' ''cron_cache_cleared'')
       \<in> set (conversion_logs settled_by_cron)
   \<and> checkIfAlreadyRanToday query_down settled_by_cron =
       (Returned False, record_call CountCronSuccessToday settled_by_cron)"
  using checkIfAlreadyRanToday_fails_open [of query_down "''connect ECONNREFUSED''" settled_by_cron]
  by (simp add: query_down_def quiet_def settled_by_cron_def)

subsection \<open>Errors of the store\<close>

text \<open>
  With a \<open>logConversion\<close> that keeps its own failures, no invocation of an engine throws.
  When the read of the total, the query for the representative identifier or the clear
  throws, the result is \<open>{success: false, error: message, message: ...}\<close> with the
  path's execution-error message, and the last call of the engine is \<open>logConversion\<close>
  with the path's execution-error action; that entry is the last row of the log unless
  the insert fails.
\<close>

theorem nested_errors_are_caught:
  assumes "engine p e w = (r, w')"
  shows "(\<exists>res. r = Returned res)
       \<and> ((GetGlobalCachedTotal \<in> set (issued w w') \<and> total_error e = Some m
           \<or> SelectLatestClickid \<in> set (issued w w') \<and> select_error e = Some m
           \<or> ClearAllCachedConversions \<in> set (issued w w') \<and> clear_error e = Some m)
          \<longrightarrow> r = Returned (no_fields\<lparr>success := Some False, error := Some m,
                                  message := Some (error_message (labels p))\<rparr>)
              \<and> issued w w' \<noteq> []
              \<and> last (issued w w') =
                  LogConversion (plain (actor (labels p)) (error_action (labels p)))
              \<and> (\<not> log_insert_fails e \<longrightarrow>
                   conversion_logs w' \<noteq> []
                   \<and> last (conversion_logs w') =
                       (curdate e, plain (actor (labels p)) (error_action (labels p)))))"
  using assms
  by (auto simp: run_simps split: if_splits option.splits)

text \<open>The cron engine when the read of the total is refused.\<close>

theorem nested_errors_are_caught_witness:
  "GetGlobalCachedTotal \<in> set (issued one_pending (snd (engine Cron read_down one_pending)))
   \<and> total_error read_down = Some ''connect ECONNREFUSED''
   \<and> log_insert_fails read_down = False
   \<and> fst (engine Cron read_down one_pending) =
       Returned (no_fields\<lparr>success := Some False, error := Some ''connect ECONNREFUSED'',
                   message := Some ''Daily postback execution error''\<rparr>)
   \<and> last (issued one_pending (snd (engine Cron read_down one_pending))) =
       LogConversion (plain ''vercel-cron'' ''cron_execution_error'')
   \<and> last (conversion_logs (snd (engine Cron read_down one_pending))) =
       (curdate read_down, plain ''vercel-cron'' ''cron_execution_error'')"
  using nested_errors_are_caught
    [of Cron read_down one_pending "fst (engine Cron read_down one_pending)"
        "snd (engine Cron read_down one_pending)" "''connect ECONNREFUSED''"]
  by (simp add: eval_simps)


subsection \<open>Failures of the log\<close>

text \<open>
  With helpers that keep their own failures: in every invocation of an engine in which
  the notification succeeds and an insert of \<open>logPostback\<close> or of \<open>logConversion\<close> fails,
  the result and the cached conversions are those of the same invocation with both
  inserts working, the attempt is still passed to \<open>logPostback\<close> with \<open>success = true\<close>,
  and the table whose insert fails is left as it was. Whenever the clear does not throw,
  the engine clears the cached conversions and reports \<open>success: true\<close>.
\<close>

theorem logging_failure_is_swallowed:
  assumes "engine p e w = (r, w')"
      and "fetches (issued w w') \<noteq> []"
      and "notification_error e = None"
      and "log_insert_fails e \<or> history_insert_fails e"
  shows "fst (engine p (healthy_logging e) w) = r
       \<and> cached_conversions (snd (engine p (healthy_logging e) w)) = cached_conversions w'
       \<and> (clear_error e = None \<longrightarrow>
            cached_conversions w' = [] \<and> (\<exists>res. r = Returned res \<and> success res = Some True))
       \<and> (log_insert_fails e \<longrightarrow> conversion_logs w' = conversion_logs w)
       \<and> (history_insert_fails e \<longrightarrow> postback_history w' = postback_history w)
       \<and> (\<exists>pb. postbacks (issued w w') = [pb] \<and> pb_success pb)"
  using assms
  by (auto simp: run_simps split: if_splits option.splits)

text \<open>Both inserts fail on the manual path, and the delete works.\<close>

theorem logging_failure_is_swallowed_witness:
  "fetches (issued one_pending (snd (engine Manual logs_down one_pending))) \<noteq> []
   \<and> notification_error logs_down = None
   \<and> log_insert_fails logs_down
   \<and> history_insert_fails logs_down
   \<and> clear_error logs_down = None
   \<and> fst (engine Manual (healthy_logging logs_down) one_pending) =
       fst (engine Manual logs_down one_pending)
   \<and> cached_conversions (snd (engine Manual logs_down one_pending)) = []
   \<and> fst (engine Manual logs_down one_pending) =
       Returned (no_fields
                   \<lparr>success := Some True,
                    message := Some ''Manual daily postback sent successfully and cache cleared'',
                    totalAmount := Some (85 / 2),
                    clearedEntries := Some 1,
                    clickidUsed := Some ''abc123''\<rparr>)
   \<and> conversion_logs (snd (engine Manual logs_down one_pending)) = []
   \<and> postback_history (snd (engine Manual logs_down one_pending)) = []"
  using logging_failure_is_swallowed
    [of Manual logs_down one_pending "fst (engine Manual logs_down one_pending)"
        "snd (engine Manual logs_down one_pending)"]
  by (simp add: eval_simps)


subsection \<open>The shape of the results\<close>

text \<open>
  The timer path at 10:05: the result is \<open>{skipped: true, reason: ...}\<close>, with neither
  \<open>success\<close> nor \<open>message\<close>.
\<close>

theorem timer_skip_counterexample:
  "fst (checkAndRunDailyPostback midmorning one_pending) =
     Returned (no_fields\<lparr>skipped := Some True,
                 reason := Some ''Not in time window. Current NY time: 10:05''\<rparr>)
   \<and> success (no_fields\<lparr>skipped := Some True,
                 reason := Some ''Not in time window. Current NY time: 10:05''\<rparr>) = None
   \<and> message (no_fields\<lparr>skipped := Some True,
                 reason := Some ''Not in time window. Current NY time: 10:05''\<rparr>) = None"
  by (simp add: checkAndRunDailyPostback_run midmorning_def quiet_def one_pending_def
      no_fields_def show_nat.simps padStart2_def)

text \<open>
  C9 (amended): every invocation of an engine returns a result with a boolean \<open>success\<close>
  and a \<open>message\<close>, whatever the outcome. Every invocation of the timer path returns
  either the skip object \<open>{skipped: true, reason}\<close>, which has neither, or the result of
  its engine, which has both.
\<close>

theorem results_have_success_and_message:
  "(\<exists>res b msg. fst (engine p e w) = Returned res \<and> success res = Some b \<and> message res = Some msg)
   \<and> (\<exists>res. fst (checkAndRunDailyPostback e w) = Returned res
         \<and> ((\<exists>why. res = no_fields\<lparr>skipped := Some True, reason := Some why\<rparr>)
            \<or> (\<exists>b msg. success res = Some b \<and> message res = Some msg)))"
proof -
  have eng: "\<And>p e w. \<exists>res b msg. fst (engine p e w) = Returned res \<and> success res = Some b
      \<and> message res = Some msg"
    by (auto simp: run_simps split: if_splits option.splits)
  show ?thesis
    using eng [of Timer e] eng [of p e w]
    by (auto simp: checkAndRunDailyPostback_run)
qed

text \<open>The timer path at 23:59 with a request that times out: the engine's failure result.\<close>

theorem results_have_success_and_message_witness:
  "fst (checkAndRunDailyPostback timed_out one_pending) =
     Returned (no_fields
                 \<lparr>success := Some False,
                  message := Some ''Daily postback failed - cache not cleared'',
                  totalAmount := Some (85 / 2),
                  error := Some ''network timeout'',
                  clickidUsed := Some ''abc123''\<rparr>)
   \<and> fst (engine Forced timed_out one_pending) =
     Returned (no_fields
                 \<lparr>success := Some False,
                  message := Some ''Force daily check: postback failed - cache not cleared'',
                  totalAmount := Some (85 / 2),
                  error := Some ''network timeout'',
                  clickidUsed := Some ''abc123'',
                  nyTime := Some ''1/9/2024, 11:59:00 PM''\<rparr>)"
  using results_have_success_and_message [of Forced timed_out one_pending]
  by (simp add: checkAndRunDailyPostback_run eval_simps)

subsection \<open>The marker of the timer path\<close>

text \<open>
  C10: \<open>lastDailyRun\<close> is assigned before the settlement runs. After a timer invocation
  at 23:59, whatever its settlement did (sent, failed, or met an error), every timer
  invocation on the same New York date that finds the marker as the first one left it
  returns \<open>{skipped: true, reason: 'Already ran today'}\<close> and leaves the state as it
  found it: no call is made, the engine is not entered. Only the timer path writes the
  marker.
\<close>

theorem marker_set_before_settlement:
  assumes "hour e = 23" and "minute e = 59"
      and "checkAndRunDailyPostback e w = (r, w')"
      and "currentDateString e' = currentDateString e"
      and "lastDailyRun w'' = lastDailyRun w'"
  shows "checkAndRunDailyPostback e' w'' =
           (Returned (no_fields\<lparr>skipped := Some True, reason := Some ''Already ran today''\<rparr>), w'')"
proof -
  have "lastDailyRun w' = Some (currentDateString e)"
  proof (cases "lastDailyRun w = Some (currentDateString e)")
    case True
    with assms(3) show ?thesis by (auto simp: checkAndRunDailyPostback_run)
  next
    case False
    with assms(1,2,3) have "w' = snd (engine Timer e
          (advance [LogConversion (plain ''auto-scheduler'' ''daily_auto_trigger'')]
             [plain ''auto-scheduler'' ''daily_auto_trigger''] [] e
             (w\<lparr>lastDailyRun := Some (currentDateString e)\<rparr>)))"
      by (simp add: checkAndRunDailyPostback_run)
    then show ?thesis by (simp add: engine_keeps_marker)
  qed
  with assms(4,5) show ?thesis by (simp add: checkAndRunDailyPostback_run)
qed

text \<open>
  The first invocation meets a timeout and reports the failure; the second, the same
  day with a working endpoint, is skipped, and the conversion stays cached.
\<close>

theorem marker_set_before_settlement_witness:
  "hour timed_out = 23 \<and> minute timed_out = 59
   \<and> currentDateString quiet = currentDateString timed_out
   \<and> success_of (fst (checkAndRunDailyPostback timed_out one_pending)) = Some False
   \<and> checkAndRunDailyPostback quiet (snd (checkAndRunDailyPostback timed_out one_pending)) =
       (Returned (no_fields\<lparr>skipped := Some True, reason := Some ''Already ran today''\<rparr>),
        snd (checkAndRunDailyPostback timed_out one_pending))
   \<and> cached_conversions (snd (checkAndRunDailyPostback timed_out one_pending)) =
       cached_conversions one_pending"
  using marker_set_before_settlement
    [of timed_out one_pending "fst (checkAndRunDailyPostback timed_out one_pending)"
        "snd (checkAndRunDailyPostback timed_out one_pending)" quiet
        "snd (checkAndRunDailyPostback timed_out one_pending)"]
  by (simp add: checkAndRunDailyPostback_run eval_simps success_of_def)

end
